theory Spec2Isabelle
  imports Complex_Main
begin

section \<open>BudgetMate: the data model\<close>

text \<open>
  The backend keeps its documents in MongoDB collections through Mongoose models.
  A collection is modelled as a list of documents, and the \<open>_id\<close> of a document is its
  position in the collection: documents of the Budget and Expense collections are never
  removed (deletion is the soft flag \<open>isActive\<close>), and \<open>create\<close> appends, so positions
  are unique, fresh and stable, as ObjectIds are. A user is identified by a number too.

  A stored \<open>Number\<close> is modelled as a real number: request validation (\<open>isFloat\<close>)
  admits only finite values, and the rounding of IEEE doubles is abstracted. Where the source
  divides, the result is a \<open>jsnum\<close>, which has the non-finite values of JavaScript.

  A string is a list of \<open>char\<close>, each standing for the code unit of its number (below
  256). A field of a request body holds a JSON value of the field's type: an amount is
  a number, and a date is the \<open>Date\<close> it is cast to.

  Only the schema fields that the modelled routes read or write are kept (\<open>items\<close>,
  \<open>icon\<close>, \<open>color\<close>, \<open>receipt\<close>, \<open>description\<close> and the timestamps are left out).
\<close>

type_synonym oid = nat

record Date =
  fullYear :: int
  monthIndex :: nat
  dayOfMonth :: nat

text \<open>\<open>getFullYear()\<close> and \<open>getMonth()\<close> (January is 0) of a \<open>Date\<close>.\<close>

definition getFullYear :: "Date \<Rightarrow> int" where
  "getFullYear d = fullYear d"

definition getMonth :: "Date \<Rightarrow> nat" where
  "getMonth d = monthIndex d"

text \<open>models/Budget.js\<close>

record Budget =
  b_title :: string
  b_amount :: real
  b_spent :: real
  b_remaining :: real
  b_category :: string
  b_user :: oid
  b_isActive :: bool

text \<open>models/Expense.js; \<open>e_budget\<close> is the optional reference to a Budget.\<close>

record Expense =
  e_name :: string
  e_amount :: real
  e_date :: Date
  e_category :: string
  e_user :: oid
  e_budget :: "oid option"
  e_isActive :: bool

record store =
  budgets :: "Budget list"
  expenses :: "Expense list"

text \<open>
  The JSON envelope of a response: the HTTP status, \<open>success\<close> and \<open>message\<close>. A
  message is one constructor per text of the routes; a constructor's argument is the
  value the source interpolates into the text.
\<close>

datatype message =
    ValidationErrors            \<comment> \<open>\<open>Validation errors\<close>\<close>
  | InvalidBudgetID             \<comment> \<open>\<open>Invalid budget ID\<close>\<close>
  | InvalidBudgetIDOf oid       \<comment> \<open>\<open>Invalid budget ID: ${budget}\<close>\<close>
  | ExpenseCreated              \<comment> \<open>\<open>Expense created successfully\<close>\<close>
  | ExpensesCreated nat         \<comment> \<open>\<open>${createdExpenses.length} expenses created successfully\<close>\<close>
  | ExpenseNotFound             \<comment> \<open>\<open>Expense not found\<close>\<close>
  | ExpenseUpdated              \<comment> \<open>\<open>Expense updated successfully\<close>\<close>
  | ExpenseDeleted              \<comment> \<open>\<open>Expense deleted successfully\<close>\<close>
  | BudgetCreated               \<comment> \<open>\<open>Budget created successfully\<close>\<close>
  | ExpenseAdded                \<comment> \<open>\<open>Expense added successfully\<close>\<close>
  | ServerErrorCreatingExpense  \<comment> \<open>\<open>Server error while creating expense\<close>\<close>
  | ServerErrorCreatingExpenses \<comment> \<open>\<open>Server error while creating expenses\<close>\<close>
  | ServerErrorUpdatingExpense  \<comment> \<open>\<open>Server error while updating expense\<close>\<close>
  | ServerErrorCreatingBudget   \<comment> \<open>\<open>Server error while creating budget\<close>\<close>
  | ServerErrorExpenseSummary   \<comment> \<open>\<open>Server error while fetching expense summary\<close>\<close>
  | ServerErrorAnalyticsSummary \<comment> \<open>\<open>Server error while fetching analytics summary\<close>\<close>

record response =
  status :: nat
  success :: bool
  message :: message

definition respond :: "nat \<Rightarrow> bool \<Rightarrow> message \<Rightarrow> response" where
  "respond c ok m = \<lparr>status = c, success = ok, message = m\<rparr>"

section \<open>Mongoose operations used by the routes\<close>

text \<open>
  The schema option \<open>trim: true\<close> is a setter that applies \<open>String.prototype.trim\<close>: it
  removes the white space and line terminators at both ends. Among the code units
  below 256 these are tab, line feed, vertical tab, form feed, carriage return, space
  and no-break space.
\<close>

definition isWhiteSpace :: "char \<Rightarrow> bool" where
  "isWhiteSpace c = (of_char c \<in> {9, 10, 11, 12, 13, 32, 160 :: nat})"

definition trim :: "string \<Rightarrow> string" where
  "trim str = rev (dropWhile isWhiteSpace (rev (dropWhile isWhiteSpace str)))"

text \<open>
  Saving a document, and an update with \<open>runValidators: true\<close>, run the validators of
  the schema; when one fails, the operation throws a ValidationError and writes
  nothing. Every route catches it and answers with status 500.
\<close>

datatype mongoose_error = ValidationError

definition categories :: "string list" where
  "categories = [''Shopping'', ''Food'', ''Transport'', ''Entertainment'', ''Healthcare'',
                 ''Education'', ''Home'', ''Other'']"

text \<open>
  The validators of models/Expense.js on a document: \<open>name\<close> required (not the empty
  string) and at most 100 long, \<open>amount\<close> at least 0, \<open>category\<close> in the enum.
\<close>

definition Expense_validate :: "Expense \<Rightarrow> bool" where
  "Expense_validate e =
     (e_name e \<noteq> [] \<and> length (e_name e) \<le> 100 \<and> 0 \<le> e_amount e \<and>
      e_category e \<in> set categories)"

text \<open>
  The validators of models/Budget.js on a document: \<open>title\<close> required and at most 100
  long, \<open>amount\<close>, \<open>spent\<close> and \<open>remaining\<close> at least 0, \<open>category\<close> in the enum.
\<close>

definition Budget_validate :: "Budget \<Rightarrow> bool" where
  "Budget_validate b =
     (b_title b \<noteq> [] \<and> length (b_title b) \<le> 100 \<and> 0 \<le> b_amount b \<and> 0 \<le> b_spent b \<and>
      0 \<le> b_remaining b \<and> b_category b \<in> set categories)"

text \<open>\<open>Budget.findOne({_id: i, user: u, isActive: true})\<close>\<close>

definition Budget_findOne :: "store \<Rightarrow> oid \<Rightarrow> oid \<Rightarrow> Budget option" where
  "Budget_findOne s i u =
     (if i < length (budgets s) \<and> b_user (budgets s ! i) = u \<and> b_isActive (budgets s ! i)
      then Some (budgets s ! i) else None)"

text \<open>
  \<open>Budget.findByIdAndUpdate(i, {$inc: {spent: d}})\<close>: an atomic add on \<open>spent\<close> of the
  document with that id, whoever owns it and whether active or not; nothing happens
  when there is no such document. Mongoose runs no \<open>save\<close> middleware for it, so
  \<open>remaining\<close> is left as stored.
\<close>

definition Budget_inc_spent :: "oid \<Rightarrow> real \<Rightarrow> store \<Rightarrow> store" where
  "Budget_inc_spent i d s =
     (if i < length (budgets s)
      then s\<lparr>budgets := (budgets s)[i := (budgets s ! i)\<lparr>b_spent := b_spent (budgets s ! i) + d\<rparr>]\<rparr>
      else s)"

text \<open>
  \<open>Expense.create(e)\<close> for a document \<open>e\<close> built from the given fields (setters applied):
  the document is validated, and when valid it is stored with the next id.
\<close>

definition Expense_create :: "Expense \<Rightarrow> store \<Rightarrow> mongoose_error + store" where
  "Expense_create e s =
     (if Expense_validate e then Inr (s\<lparr>expenses := expenses s @ [e]\<rparr>) else Inl ValidationError)"

text \<open>\<open>Expense.findOne({_id: i, user: u, isActive: true})\<close>\<close>

definition Expense_findOne :: "store \<Rightarrow> oid \<Rightarrow> oid \<Rightarrow> Expense option" where
  "Expense_findOne s i u =
     (if i < length (expenses s) \<and> e_user (expenses s ! i) = u \<and> e_isActive (expenses s ! i)
      then Some (expenses s ! i) else None)"

section \<open>routes/expense.js\<close>

text \<open>The body of \<open>POST /api/expenses\<close>, and of one entry of \<open>POST /api/expenses/bulk\<close>.\<close>

record ExpenseBody =
  p_name :: string
  p_amount :: real
  p_category :: string
  p_date :: "Date option"
  p_budget :: "oid option"

text \<open>The express-validator chain of the route: the request passes when there is no error.\<close>

definition validExpenseBody :: "ExpenseBody \<Rightarrow> bool" where
  "validExpenseBody body =
     (p_name body \<noteq> [] \<and> length (p_name body) \<le> 100 \<and> 0 \<le> p_amount body \<and>
      p_category body \<in> set categories)"

text \<open>
  The document that \<open>Expense.create\<close> builds from the fields the route hands to it:
  \<open>name\<close> goes through the \<open>trim\<close> setter and \<open>isActive\<close> takes its schema default.
\<close>

definition newExpense :: "Date \<Rightarrow> oid \<Rightarrow> ExpenseBody \<Rightarrow> Expense" where
  "newExpense now u body =
     \<lparr>e_name = trim (p_name body), e_amount = p_amount body,
      e_date = (case p_date body of Some d \<Rightarrow> d | None \<Rightarrow> now),
      e_category = p_category body, e_user = u, e_budget = p_budget body, e_isActive = True\<rparr>"

text \<open>
  \<open>POST /api/expenses\<close> for the authenticated user \<open>u\<close> at time \<open>now\<close>: validation,
  the budget pre-check, the create, then the \<open>$inc\<close> on the budget. A create that throws
  is caught and answered with status 500.
\<close>

definition POST_expenses :: "Date \<Rightarrow> oid \<Rightarrow> ExpenseBody \<Rightarrow> store \<Rightarrow> response \<times> store" where
  "POST_expenses now u body s =
     (if \<not> validExpenseBody body then (respond 400 False ValidationErrors, s)
      else if (case p_budget body of Some b \<Rightarrow> Budget_findOne s b u = None | None \<Rightarrow> False)
      then (respond 400 False InvalidBudgetID, s)
      else
        case Expense_create (newExpense now u body) s of
          Inl err \<Rightarrow> (respond 500 False ServerErrorCreatingExpense, s)
        | Inr s1 \<Rightarrow>
            let s2 = (case p_budget body of
                        Some b \<Rightarrow> Budget_inc_spent b (p_amount body) s1
                      | None \<Rightarrow> s1)
            in (respond 201 True ExpenseCreated, s2))"

text \<open>
  \<open>POST /api/expenses/bulk\<close>. \<open>budgetUpdates\<close> is an object keyed by budget id: an
  association list in insertion order. \<open>js_put\<close> is the assignment \<open>obj[k] = v\<close>.
\<close>

fun js_put :: "oid \<Rightarrow> real \<Rightarrow> (oid \<times> real) list \<Rightarrow> (oid \<times> real) list" where
  "js_put k v [] = [(k, v)]"
| "js_put k v ((k', v') # r) = (if k = k' then (k, v) # r else (k', v') # js_put k v r)"

text \<open>
  \<open>if (!budgetUpdates[budget]) { budgetUpdates[budget] = 0; }  budgetUpdates[budget] += amount;\<close>
  (a missing key and the number 0 are both falsy).
\<close>

definition track :: "oid \<Rightarrow> real \<Rightarrow> (oid \<times> real) list \<Rightarrow> (oid \<times> real) list" where
  "track b a budgetUpdates =
     (case map_of budgetUpdates b of
        None \<Rightarrow> js_put b (0 + a) (js_put b 0 budgetUpdates)
      | Some v \<Rightarrow> if v = 0 then js_put b (0 + a) (js_put b 0 budgetUpdates)
                  else js_put b (v + a) budgetUpdates)"

text \<open>
  The loop over the submitted entries ends the request at once in two ways: an entry
  whose budget is not found (\<open>return res.status(400)\<close> inside the loop), and an entry
  whose create throws (caught by the route). Otherwise the entry's amount is tracked,
  if it has a budget, and the expense is created.
\<close>

datatype bulk_exit =
    InvalidBudget oid           \<comment> \<open>the budget of an entry was not found\<close>
  | CreateFailed mongoose_error \<comment> \<open>\<open>Expense.create\<close> threw\<close>

fun bulk_loop :: "Date \<Rightarrow> oid \<Rightarrow> ExpenseBody list \<Rightarrow> (oid \<times> real) list \<Rightarrow> Expense list \<Rightarrow> store
    \<Rightarrow> (bulk_exit + (oid \<times> real) list \<times> Expense list) \<times> store" where
  "bulk_loop now u [] budgetUpdates createdExpenses s = (Inr (budgetUpdates, createdExpenses), s)"
| "bulk_loop now u (expenseData # rest) budgetUpdates createdExpenses s =
     (case p_budget expenseData of
        Some b \<Rightarrow>
          if Budget_findOne s b u = None then (Inl (InvalidBudget b), s)
          else (case Expense_create (newExpense now u expenseData) s of
                  Inl err \<Rightarrow> (Inl (CreateFailed err), s)
                | Inr s1 \<Rightarrow>
                    bulk_loop now u rest (track b (p_amount expenseData) budgetUpdates)
                      (createdExpenses @ [newExpense now u expenseData]) s1)
      | None \<Rightarrow>
          (case Expense_create (newExpense now u expenseData) s of
             Inl err \<Rightarrow> (Inl (CreateFailed err), s)
           | Inr s1 \<Rightarrow>
               bulk_loop now u rest budgetUpdates
                 (createdExpenses @ [newExpense now u expenseData]) s1))"

text \<open>\<open>body('expenses').isArray({ min: 1 })\<close> and the validators of every entry.\<close>

definition validBulkBody :: "ExpenseBody list \<Rightarrow> bool" where
  "validBulkBody bodies = (1 \<le> length bodies \<and> list_all validExpenseBody bodies)"

text \<open>After the loop, one \<open>$inc\<close> for each entry of \<open>budgetUpdates\<close>.\<close>

definition POST_expenses_bulk :: "Date \<Rightarrow> oid \<Rightarrow> ExpenseBody list \<Rightarrow> store \<Rightarrow> response \<times> store" where
  "POST_expenses_bulk now u bodies s =
     (if \<not> validBulkBody bodies then (respond 400 False ValidationErrors, s)
      else case bulk_loop now u bodies [] [] s of
        (Inl (InvalidBudget b), s1) \<Rightarrow> (respond 400 False (InvalidBudgetIDOf b), s1)
      | (Inl (CreateFailed err), s1) \<Rightarrow> (respond 500 False ServerErrorCreatingExpenses, s1)
      | (Inr (budgetUpdates, createdExpenses), s1) \<Rightarrow>
          (respond 201 True (ExpensesCreated (length createdExpenses)),
           fold (\<lambda>(budgetId, totalSpent). Budget_inc_spent budgetId totalSpent) budgetUpdates s1))"


text \<open>
  The body of \<open>PUT /api/expenses/:id\<close>: every field is optional. The body is modelled
  with the fields that the route validates.
\<close>

record ExpenseUpdate =
  u_name :: "string option"
  u_amount :: "real option"
  u_category :: "string option"
  u_date :: "Date option"
  u_budget :: "oid option"

definition validExpenseUpdate :: "ExpenseUpdate \<Rightarrow> bool" where
  "validExpenseUpdate body =
     ((case u_name body of Some n \<Rightarrow> n \<noteq> [] \<and> length n \<le> 100 | None \<Rightarrow> True) \<and>
      (case u_amount body of Some a \<Rightarrow> 0 \<le> a | None \<Rightarrow> True) \<and>
      (case u_category body of Some c \<Rightarrow> c \<in> set categories | None \<Rightarrow> True))"

text \<open>
  \<open>req.body.budget !== expense.budget\<close>: the left operand is the string of the request
  body, the right one the ObjectId object of the stored document (or \<open>undefined\<close>).
  Strict inequality of values of different types is true, whatever the ids are.
\<close>

definition strictNotEqual :: "oid \<Rightarrow> oid option \<Rightarrow> bool" where
  "strictNotEqual bodyBudget documentBudget = True"

text \<open>
  \<open>Expense.findByIdAndUpdate(i, req.body, {new: true, runValidators: true})\<close>: the fields
  present in the body are set on the document, \<open>name\<close> through the \<open>trim\<close> setter. The
  validators run on the values to be set, and a failure throws before anything is
  written.
\<close>

definition Expense_validateUpdate :: "ExpenseUpdate \<Rightarrow> bool" where
  "Expense_validateUpdate body =
     ((case u_name body of Some n \<Rightarrow> trim n \<noteq> [] \<and> length (trim n) \<le> 100 | None \<Rightarrow> True) \<and>
      (case u_amount body of Some a \<Rightarrow> 0 \<le> a | None \<Rightarrow> True) \<and>
      (case u_category body of Some c \<Rightarrow> c \<in> set categories | None \<Rightarrow> True))"

definition applyUpdate :: "ExpenseUpdate \<Rightarrow> Expense \<Rightarrow> Expense" where
  "applyUpdate body e =
     e\<lparr>e_name := (case u_name body of Some n \<Rightarrow> trim n | None \<Rightarrow> e_name e),
       e_amount := (case u_amount body of Some a \<Rightarrow> a | None \<Rightarrow> e_amount e),
       e_category := (case u_category body of Some c \<Rightarrow> c | None \<Rightarrow> e_category e),
       e_date := (case u_date body of Some d \<Rightarrow> d | None \<Rightarrow> e_date e),
       e_budget := (case u_budget body of Some b \<Rightarrow> Some b | None \<Rightarrow> e_budget e)\<rparr>"

definition Expense_findByIdAndUpdate :: "oid \<Rightarrow> ExpenseUpdate \<Rightarrow> store \<Rightarrow> mongoose_error + store" where
  "Expense_findByIdAndUpdate i body s =
     (if \<not> Expense_validateUpdate body then Inl ValidationError
      else if i < length (expenses s)
      then Inr (s\<lparr>expenses := (expenses s)[i := applyUpdate body (expenses s ! i)]\<rparr>)
      else Inr s)"

text \<open>
  \<open>PUT /api/expenses/:id\<close>: validation, the lookup of the user's active expense, the
  budget adjustment (made only when the body has an amount that differs from the
  stored one), then the update of the expense. An update that throws is caught and
  answered with status 500, after the budget adjustment has been written.
\<close>

definition PUT_expenses :: "oid \<Rightarrow> oid \<Rightarrow> ExpenseUpdate \<Rightarrow> store \<Rightarrow> response \<times> store" where
  "PUT_expenses u i body s =
     (if \<not> validExpenseUpdate body then (respond 400 False ValidationErrors, s)
      else case Expense_findOne s i u of
        None \<Rightarrow> (respond 404 False ExpenseNotFound, s)
      | Some expense \<Rightarrow>
          let s1 =
            (case u_amount body of
               None \<Rightarrow> s
             | Some a \<Rightarrow>
                 if a \<noteq> e_amount expense then
                   let amountDifference = a - e_amount expense;
                       sa = (case e_budget expense of
                               Some old \<Rightarrow> Budget_inc_spent old amountDifference s
                             | None \<Rightarrow> s)
                   in (case u_budget body of
                         Some new \<Rightarrow>
                           if strictNotEqual new (e_budget expense)
                           then Budget_inc_spent new a sa else sa
                       | None \<Rightarrow> sa)
                 else s)
          in (case Expense_findByIdAndUpdate i body s1 of
                Inl err \<Rightarrow> (respond 500 False ServerErrorUpdatingExpense, s1)
              | Inr s2 \<Rightarrow> (respond 200 True ExpenseUpdated, s2)))"

text \<open>
  \<open>expense.save()\<close> of a document read from the store with \<open>isActive\<close> changed: the
  document with id \<open>i\<close> is replaced (the Expense schema has no hook). The validated
  fields are as they were stored, having passed the validators when they were written.
\<close>

definition Expense_save :: "oid \<Rightarrow> Expense \<Rightarrow> store \<Rightarrow> store" where
  "Expense_save i e s = (if i < length (expenses s) then s\<lparr>expenses := (expenses s)[i := e]\<rparr> else s)"

text \<open>
  \<open>DELETE /api/expenses/:id\<close>: the lookup of the user's active expense, the \<open>$inc\<close> of
  the linked budget by \<open>-expense.amount\<close>, then the soft delete.
\<close>

definition DELETE_expenses :: "oid \<Rightarrow> oid \<Rightarrow> store \<Rightarrow> response \<times> store" where
  "DELETE_expenses u i s =
     (case Expense_findOne s i u of
        None \<Rightarrow> (respond 404 False ExpenseNotFound, s)
      | Some expense \<Rightarrow>
          let s1 = (case e_budget expense of
                      Some b \<Rightarrow> Budget_inc_spent b (- e_amount expense) s
                    | None \<Rightarrow> s)
          in (respond 200 True ExpenseDeleted, Expense_save i (expense\<lparr>e_isActive := False\<rparr>) s1))"

section \<open>routes/budget.js: creating a budget\<close>

record BudgetBody =
  bb_title :: string
  bb_amount :: real
  bb_category :: string

definition validBudgetBody :: "BudgetBody \<Rightarrow> bool" where
  "validBudgetBody body =
     (bb_title body \<noteq> [] \<and> length (bb_title body) \<le> 100 \<and> 0 \<le> bb_amount body \<and>
      bb_category body \<in> set categories)"

text \<open>\<open>budgetSchema.pre('save')\<close>: calculate the remaining amount before saving.\<close>

definition budget_pre_save :: "Budget \<Rightarrow> Budget" where
  "budget_pre_save b = b\<lparr>b_remaining := b_amount b - b_spent b\<rparr>"

text \<open>
  The document of \<open>Budget.create({title, amount, category, ...})\<close>: \<open>title\<close> through the
  \<open>trim\<close> setter, and the schema defaults \<open>spent\<close> 0, \<open>remaining\<close> \<open>amount - spent\<close>,
  \<open>isActive\<close> true. \<open>create\<close> saves the document: it is validated, then the hook runs.
\<close>

definition newBudget :: "oid \<Rightarrow> BudgetBody \<Rightarrow> Budget" where
  "newBudget u body =
     \<lparr>b_title = trim (bb_title body), b_amount = bb_amount body, b_spent = 0,
      b_remaining = bb_amount body - 0, b_category = bb_category body, b_user = u,
      b_isActive = True\<rparr>"

definition Budget_create :: "Budget \<Rightarrow> store \<Rightarrow> mongoose_error + store" where
  "Budget_create b s =
     (if Budget_validate b then Inr (s\<lparr>budgets := budgets s @ [budget_pre_save b]\<rparr>)
      else Inl ValidationError)"

definition POST_budgets :: "oid \<Rightarrow> BudgetBody \<Rightarrow> store \<Rightarrow> response \<times> store" where
  "POST_budgets u body s =
     (if \<not> validBudgetBody body then (respond 400 False ValidationErrors, s)
      else case Budget_create (newBudget u body) s of
        Inl err \<Rightarrow> (respond 500 False ServerErrorCreatingBudget, s)
      | Inr s1 \<Rightarrow> (respond 201 True BudgetCreated, s1))"

section \<open>The quantity that \<open>spent\<close> is meant to hold\<close>

text \<open>The sum of \<open>amount\<close> over the active expenses that reference budget \<open>b\<close>.\<close>

definition activeTotal :: "store \<Rightarrow> oid \<Rightarrow> real" where
  "activeTotal s b = sum_list (map e_amount (filter (\<lambda>e. e_isActive e \<and> e_budget e = Some b) (expenses s)))"

section \<open>models/SavingsPlan.js and routes/savings.js: savings expenses\<close>

text \<open>
  Documents of the SavingsExpense collection can be removed, so a document carries its
  \<open>_id\<close>, and \<open>create\<close> takes an id above every id in the collection.
\<close>

record SavingsExpense =
  se_id :: oid
  se_category :: string
  se_perMonth :: real
  se_perYear :: real
  se_user :: oid

definition savingsCategories :: "string list" where
  "savingsCategories = [''Rent'', ''Electricity'', ''Appliances'', ''Food'', ''Transport'',
                        ''Healthcare'', ''Entertainment'', ''Other'']"

text \<open>The bodies of \<open>POST\<close> and \<open>PUT /api/savings/expenses\<close>, with the validated fields.\<close>

record SavingsExpenseBody =
  sb_category :: string
  sb_perMonth :: real

record SavingsExpenseUpdate =
  su_category :: "string option"
  su_perMonth :: "real option"

definition validSavingsExpenseBody :: "SavingsExpenseBody \<Rightarrow> bool" where
  "validSavingsExpenseBody body = (sb_category body \<in> set savingsCategories \<and> 0 \<le> sb_perMonth body)"

definition validSavingsExpenseUpdate :: "SavingsExpenseUpdate \<Rightarrow> bool" where
  "validSavingsExpenseUpdate body =
     ((case su_category body of Some c \<Rightarrow> c \<in> set savingsCategories | None \<Rightarrow> True) \<and>
      (case su_perMonth body of Some p \<Rightarrow> 0 \<le> p | None \<Rightarrow> True))"

text \<open>\<open>expenseSchema.pre('save')\<close>: calculate the yearly expense before saving.\<close>

definition savings_pre_save :: "SavingsExpense \<Rightarrow> SavingsExpense" where
  "savings_pre_save e = e\<lparr>se_perYear := se_perMonth e * 12\<rparr>"

definition nextId :: "SavingsExpense list \<Rightarrow> oid" where
  "nextId docs = Suc (fold max (map se_id docs) 0)"

text \<open>
  \<open>SavingsExpense.create({category, perMonth, user})\<close>: \<open>perYear\<close> takes its schema
  default \<open>perMonth * 12\<close>, then the document is saved, which runs the hook. The
  validators of this schema (the enum of \<open>category\<close>, \<open>perMonth\<close> at least 0) are those of
  the routes, so they pass for a body that the route has accepted.
\<close>

definition SavingsExpense_create :: "oid \<Rightarrow> SavingsExpenseBody \<Rightarrow> SavingsExpense list \<Rightarrow> SavingsExpense list" where
  "SavingsExpense_create u body docs =
     docs @ [savings_pre_save
               \<lparr>se_id = nextId docs, se_category = sb_category body, se_perMonth = sb_perMonth body,
                se_perYear = sb_perMonth body * 12, se_user = u\<rparr>]"

definition POST_savings_expenses :: "oid \<Rightarrow> SavingsExpenseBody \<Rightarrow> SavingsExpense list \<Rightarrow> response \<times> SavingsExpense list" where
  "POST_savings_expenses u body docs =
     (if \<not> validSavingsExpenseBody body then (respond 400 False ValidationErrors, docs)
      else (respond 201 True ExpenseAdded, SavingsExpense_create u body docs))"

text \<open>
  \<open>SavingsExpense.findOneAndUpdate({_id: i, user: u}, req.body, {new: true, runValidators: true})\<close>:
  the fields of the body are set on the first matching document; no \<open>save\<close> middleware runs.
  The result is the updated document, or nothing when no document matches.
\<close>

definition setSavingsFields :: "SavingsExpenseUpdate \<Rightarrow> SavingsExpense \<Rightarrow> SavingsExpense" where
  "setSavingsFields body e =
     e\<lparr>se_category := (case su_category body of Some c \<Rightarrow> c | None \<Rightarrow> se_category e),
       se_perMonth := (case su_perMonth body of Some p \<Rightarrow> p | None \<Rightarrow> se_perMonth e)\<rparr>"

fun SavingsExpense_findOneAndUpdate :: "oid \<Rightarrow> oid \<Rightarrow> SavingsExpenseUpdate \<Rightarrow> SavingsExpense list
    \<Rightarrow> SavingsExpense option \<times> SavingsExpense list" where
  "SavingsExpense_findOneAndUpdate i u body [] = (None, [])"
| "SavingsExpense_findOneAndUpdate i u body (e # docs) =
     (if se_id e = i \<and> se_user e = u
      then (Some (setSavingsFields body e), setSavingsFields body e # docs)
      else (case SavingsExpense_findOneAndUpdate i u body docs of
              (r, docs') \<Rightarrow> (r, e # docs')))"

definition PUT_savings_expenses :: "oid \<Rightarrow> oid \<Rightarrow> SavingsExpenseUpdate \<Rightarrow> SavingsExpense list
    \<Rightarrow> response \<times> SavingsExpense list" where
  "PUT_savings_expenses u i body docs =
     (if \<not> validSavingsExpenseUpdate body then (respond 400 False ValidationErrors, docs)
      else case SavingsExpense_findOneAndUpdate i u body docs of
        (None, docs') \<Rightarrow> (respond 404 False ExpenseNotFound, docs')
      | (Some expense, docs') \<Rightarrow> (respond 200 True ExpenseUpdated, docs'))"

section \<open>JavaScript numbers where the source divides\<close>

text \<open>
  The result of a division is a finite number, \<open>Infinity\<close>, \<open>-Infinity\<close> or \<open>NaN\<close>. The
  operands of every division in the modelled code are stored (finite) numbers. Signed
  zeros are not distinguished.
\<close>

datatype jsnum = Num real | Infinity | NegInfinity | NaN

fun js_div :: "real \<Rightarrow> real \<Rightarrow> jsnum" where
  "js_div x y =
     (if y \<noteq> 0 then Num (x / y)
      else if x = 0 then NaN else if 0 < x then Infinity else NegInfinity)"

fun js_mul :: "jsnum \<Rightarrow> real \<Rightarrow> jsnum" where
  "js_mul (Num x) k = Num (x * k)"
| "js_mul Infinity k = (if 0 < k then Infinity else if k < 0 then NegInfinity else NaN)"
| "js_mul NegInfinity k = (if 0 < k then NegInfinity else if k < 0 then Infinity else NaN)"
| "js_mul NaN k = NaN"

text \<open>\<open>x >= k\<close> and \<open>x > k\<close>: every comparison with \<open>NaN\<close> is false.\<close>

fun js_ge :: "jsnum \<Rightarrow> real \<Rightarrow> bool" where
  "js_ge (Num x) k = (k \<le> x)"
| "js_ge Infinity k = True"
| "js_ge NegInfinity k = False"
| "js_ge NaN k = False"

fun js_gt :: "jsnum \<Rightarrow> real \<Rightarrow> bool" where
  "js_gt (Num x) k = (k < x)"
| "js_gt Infinity k = True"
| "js_gt NegInfinity k = False"
| "js_gt NaN k = False"

text \<open>\<open>Math.round\<close>: the nearest integer, a half rounding up; non-finite values stay.\<close>

definition round_half_up :: "real \<Rightarrow> real" where
  "round_half_up x = of_int \<lfloor>x + 1 / 2\<rfloor>"

fun Math_round :: "jsnum \<Rightarrow> jsnum" where
  "Math_round (Num x) = Num (round_half_up x)"
| "Math_round Infinity = Infinity"
| "Math_round NegInfinity = NegInfinity"
| "Math_round NaN = NaN"

section \<open>Guarded percentages: models/Budget.js and models/ExpenseAnalytics.js\<close>

text \<open>The virtual \<open>spendingPercentage\<close> of a Budget.\<close>

definition spendingPercentage :: "Budget \<Rightarrow> jsnum" where
  "spendingPercentage b =
     (if b_amount b = 0 then Num 0
      else Math_round (js_mul (js_div (b_spent b) (b_amount b)) 100))"

record ExpenseAnalytics =
  a_category :: string
  a_actual :: real
  a_budget :: real
  a_lastYear :: real
  a_month :: nat
  a_year :: int
  a_user :: oid

text \<open>The virtuals \<open>variance\<close> and \<open>variancePercentage\<close> of an ExpenseAnalytics document.\<close>

definition variance :: "ExpenseAnalytics \<Rightarrow> real" where
  "variance a = a_budget a - a_actual a"

definition variancePercentage :: "ExpenseAnalytics \<Rightarrow> jsnum" where
  "variancePercentage a =
     (if a_budget a = 0 then Num 0
      else Math_round (js_mul (js_div (variance a) (a_budget a)) 100))"

section \<open>routes/dashboard.js: notifications\<close>

text \<open>The \<open>type\<close> of a notification or insight: the strings \<open>warning\<close>, \<open>info\<close>, \<open>alert\<close>.\<close>

datatype ntype = Warning | Info | Alert

text \<open>
  The message of a notification or insight, one constructor per template; the
  arguments are the interpolated values (a number is formatted by \<open>toFixed(1)\<close>).
\<close>

datatype note_message =
    BudgetUsedReduce string jsnum  \<comment> \<open>\<open>${title} is ${utilization}% used. Consider reducing expenses.\<close>\<close>
  | BudgetUsed string jsnum        \<comment> \<open>\<open>${title} is ${utilization}% used.\<close>\<close>
  | HighExpense string             \<comment> \<open>\<open>You have an unusually high expense in ${category} this month.\<close>\<close>
  | SpendingLess real string       \<comment> \<open>\<open>You're spending ${p}% less than budgeted in ${category}. Consider reallocating funds.\<close>\<close>
  | SpendingMore real string       \<comment> \<open>\<open>You're spending ${p}% more than budgeted in ${category}. Review your spending.\<close>\<close>
  | AccountsFor string jsnum       \<comment> \<open>\<open>${category} accounts for ${percentage}% of your spending. Consider diversifying your expenses.\<close>\<close>
  | TotalUsed real                 \<comment> \<open>\<open>You've used ${budgetUtilization}% of your total budget. Monitor your spending closely.\<close>\<close>

datatype ndata =
    BudgetData oid jsnum           \<comment> \<open>\<open>{budgetId, utilization: Math.round(utilization)}\<close>\<close>
  | ExpenseData real real          \<comment> \<open>\<open>{maxAmount, avgAmount: Math.round(avgAmount)}\<close>\<close>

record notification =
  n_type :: ntype
  n_title :: string
  n_message :: note_message
  n_category :: string
  n_data :: ndata

text \<open>Dates are compared to the day: \<open>d1 >= d2\<close> and \<open>d1 < d2\<close>.\<close>

definition date_ge :: "Date \<Rightarrow> Date \<Rightarrow> bool" where
  "date_ge d1 d2 =
     (fullYear d2 < fullYear d1 \<or>
      (fullYear d1 = fullYear d2 \<and>
       (monthIndex d2 < monthIndex d1 \<or>
        (monthIndex d1 = monthIndex d2 \<and> dayOfMonth d2 \<le> dayOfMonth d1))))"

definition date_lt :: "Date \<Rightarrow> Date \<Rightarrow> bool" where
  "date_lt d1 d2 = (\<not> date_ge d1 d2)"

text \<open>\<open>new Date(y, m, d)\<close> for a month index \<open>m\<close> that may be 12 (January of the next year).\<close>

definition newDate :: "int \<Rightarrow> nat \<Rightarrow> nat \<Rightarrow> Date" where
  "newDate y m d = \<lparr>fullYear = y + int (m div 12), monthIndex = m mod 12, dayOfMonth = d\<rparr>"

text \<open>\<open>Budget.find({user: u, isActive: true})\<close>: the documents with their ids.\<close>

definition Budget_find :: "store \<Rightarrow> oid \<Rightarrow> (oid \<times> Budget) list" where
  "Budget_find s u = filter (\<lambda>(i, b). b_user b = u \<and> b_isActive b) (enumerate 0 (budgets s))"

text \<open>The \<open>utilization\<close> computed for each budget by \<open>GET /api/dashboard/notifications\<close>.\<close>

definition utilization :: "Budget \<Rightarrow> jsnum" where
  "utilization budget = js_mul (js_div (b_spent budget) (b_amount budget)) 100"

definition budgetNotification :: "oid \<times> Budget \<Rightarrow> notification list" where
  "budgetNotification ib =
     (case ib of (i, budget) \<Rightarrow>
        if js_ge (utilization budget) 90 then
          [\<lparr>n_type = Warning, n_title = ''Budget Alert'',
            n_message = BudgetUsedReduce (b_title budget) (utilization budget),
            n_category = b_category budget,
            n_data = BudgetData i (Math_round (utilization budget))\<rparr>]
        else if js_ge (utilization budget) 80 then
          [\<lparr>n_type = Info, n_title = ''Budget Notice'',
            n_message = BudgetUsed (b_title budget) (utilization budget),
            n_category = b_category budget,
            n_data = BudgetData i (Math_round (utilization budget))\<rparr>]
        else [])"

text \<open>
  \<open>categoryExpenses\<close>: the amounts of the month's expenses by category, the categories
  in the order in which they first occur (the key order of the JavaScript object).
\<close>

fun pushAmount :: "string \<Rightarrow> real \<Rightarrow> (string \<times> real list) list \<Rightarrow> (string \<times> real list) list" where
  "pushAmount c a [] = [(c, [a])]"
| "pushAmount c a ((c', amounts) # r) =
     (if c = c' then (c', amounts @ [a]) # r else (c', amounts) # pushAmount c a r)"

definition categoryExpenses :: "Expense list \<Rightarrow> (string \<times> real list) list" where
  "categoryExpenses monthlyExpenses =
     fold (\<lambda>expense acc. pushAmount (e_category expense) (e_amount expense) acc) monthlyExpenses []"

definition highExpenseNotification :: "string \<times> real list \<Rightarrow> notification list" where
  "highExpenseNotification ca =
     (case ca of (category, amounts) \<Rightarrow>
        (case amounts of
           [] \<Rightarrow> []
         | a # rest \<Rightarrow>
             let avgAmount = sum_list amounts / real (length amounts);
                 maxAmount = fold max rest a
             in if avgAmount * 2 < maxAmount then
                  [\<lparr>n_type = Info, n_title = ''High Expense Notice'',
                    n_message = HighExpense category, n_category = category,
                    n_data = ExpenseData maxAmount (round_half_up avgAmount)\<rparr>]
                else []))"

text \<open>The notifications in the order in which the route pushes them.\<close>

definition collectNotifications :: "Date \<Rightarrow> oid \<Rightarrow> store \<Rightarrow> notification list" where
  "collectNotifications now u s =
     (let startOfMonth = newDate (getFullYear now) (getMonth now) 1;
          monthlyExpenses =
            filter (\<lambda>e. e_user e = u \<and> e_isActive e \<and> date_ge (e_date e) startOfMonth) (expenses s)
      in concat (map budgetNotification (Budget_find s u)) @
         concat (map highExpenseNotification (categoryExpenses monthlyExpenses)))"

text \<open>
  \<open>Array.prototype.sort\<close> with a comparator. The sort is stable, and a comparator result
  of \<open>NaN\<close> counts as 0; for a consistent comparator the result is determined, and a
  stable insertion sort computes it.
\<close>

fun sortCompare :: "jsnum \<Rightarrow> real" where
  "sortCompare (Num v) = v"
| "sortCompare Infinity = 1"
| "sortCompare NegInfinity = - 1"
| "sortCompare NaN = 0"

fun js_insert :: "('a \<Rightarrow> 'a \<Rightarrow> jsnum) \<Rightarrow> 'a \<Rightarrow> 'a list \<Rightarrow> 'a list" where
  "js_insert cmp x [] = [x]"
| "js_insert cmp x (y # ys) =
     (if sortCompare (cmp x y) \<le> 0 then x # y # ys else y # js_insert cmp x ys)"

definition js_sort :: "('a \<Rightarrow> 'a \<Rightarrow> jsnum) \<Rightarrow> 'a list \<Rightarrow> 'a list" where
  "js_sort cmp xs = foldr (js_insert cmp) xs []"

text \<open>\<open>const priority = { warning: 2, info: 1 }\<close>; any other key is \<open>undefined\<close>.\<close>

fun priority :: "ntype \<Rightarrow> real option" where
  "priority Warning = Some 2"
| "priority Info = Some 1"
| "priority Alert = None"

text \<open>\<open>(a, b) => priority[b.type] - priority[a.type]\<close>; arithmetic on \<open>undefined\<close> is \<open>NaN\<close>.\<close>

definition comparePriority :: "notification \<Rightarrow> notification \<Rightarrow> jsnum" where
  "comparePriority a b =
     (case (priority (n_type b), priority (n_type a)) of
        (Some pb, Some pa) \<Rightarrow> Num (pb - pa)
      | _ \<Rightarrow> NaN)"

definition GET_dashboard_notifications :: "Date \<Rightarrow> oid \<Rightarrow> store \<Rightarrow> notification list" where
  "GET_dashboard_notifications now u s = js_sort comparePriority (collectNotifications now u s)"

section \<open>routes/analytics.js: insights\<close>

record insight =
  i_type :: ntype
  i_category :: string
  i_message :: note_message

text \<open>Budget against actual, for one analytics document.\<close>

definition varianceInsight :: "ExpenseAnalytics \<Rightarrow> insight list" where
  "varianceInsight item =
     (let variancePercentage =
            (if 0 < a_budget item then (a_budget item - a_actual item) / a_budget item * 100 else 0)
      in if 20 < variancePercentage then
           [\<lparr>i_type = Warning, i_category = a_category item,
             i_message = SpendingLess \<bar>variancePercentage\<bar> (a_category item)\<rparr>]
         else if variancePercentage < - 20 then
           [\<lparr>i_type = Alert, i_category = a_category item,
             i_message = SpendingMore \<bar>variancePercentage\<bar> (a_category item)\<rparr>]
         else [])"

text \<open>\<open>categorySpending\<close>: the total by category, the categories in order of first occurrence.\<close>

fun addSpending :: "string \<Rightarrow> real \<Rightarrow> (string \<times> real) list \<Rightarrow> (string \<times> real) list" where
  "addSpending c a [] = [(c, 0 + a)]"
| "addSpending c a ((c', t) # r) =
     (if c = c' then (c', (if t = 0 then 0 else t) + a) # r else (c', t) # addSpending c a r)"

definition categorySpending :: "Expense list \<Rightarrow> (string \<times> real) list" where
  "categorySpending es = fold (\<lambda>expense acc. addSpending (e_category expense) (e_amount expense) acc) es []"

definition spendingInsight :: "real \<Rightarrow> string \<times> real \<Rightarrow> insight list" where
  "spendingInsight totalSpent ca =
     (case ca of (category, amount) \<Rightarrow>
        let percentage = js_mul (js_div amount totalSpent) 100
        in if js_gt percentage 40 then
             [\<lparr>i_type = Info, i_category = category, i_message = AccountsFor category percentage\<rparr>]
           else [])"

text \<open>The utilization of all the user's budgets together, guarded against a zero total.\<close>

definition budgetUtilization :: "Budget list \<Rightarrow> real" where
  "budgetUtilization bs =
     (let totalBudget = sum_list (map b_amount bs);
          totalSpentFromBudgets = sum_list (map b_spent bs)
      in if 0 < totalBudget then totalSpentFromBudgets / totalBudget * 100 else 0)"

definition utilizationInsight :: "Budget list \<Rightarrow> insight list" where
  "utilizationInsight bs =
     (if 80 < budgetUtilization bs then
        [\<lparr>i_type = Warning, i_category = ''Overall'',
          i_message = TotalUsed (budgetUtilization bs)\<rparr>]
      else [])"

text \<open>
  \<open>GET /api/analytics/insights\<close> over the ExpenseAnalytics collection \<open>docs\<close> and the store:
  the three queries, then the insights in the order in which they are pushed. The
  route returns the array as built; it does not sort it.
\<close>

definition GET_analytics_insights :: "Date \<Rightarrow> oid \<Rightarrow> ExpenseAnalytics list \<Rightarrow> store \<Rightarrow> insight list" where
  "GET_analytics_insights now u docs s =
     (let currentYear = getFullYear now;
          currentMonth = getMonth now + 1;
          analytics = filter (\<lambda>a. a_user a = u \<and> a_year a = currentYear) docs;
          es = filter (\<lambda>e. e_user e = u \<and> e_isActive e \<and>
                            date_ge (e_date e) (newDate currentYear 0 1) \<and>
                            date_lt (e_date e) (newDate currentYear currentMonth 1)) (expenses s);
          bs = map snd (Budget_find s u);
          totalSpent = sum_list (map snd (categorySpending es))
      in concat (map varianceInsight analytics) @
         concat (map (spendingInsight totalSpent) (categorySpending es)) @
         utilizationInsight bs)"

text \<open>In a sequence of types, no \<open>info\<close> comes before a \<open>warning\<close>.\<close>

fun warningsFirst :: "ntype list \<Rightarrow> bool" where
  "warningsFirst [] = True"
| "warningsFirst (t # ts) = ((if t = Info then Warning \<notin> set ts else True) \<and> warningsFirst ts)"

section \<open>Monthly breakdowns: routes/expense.js and routes/analytics.js\<close>

text \<open>
  \<open>monthlyBreakdown\<close> is an object keyed by the month number: a map from \<open>nat\<close>. Reading
  a field of \<open>monthlyBreakdown[month]\<close> for a key that is not there throws a TypeError,
  which the route catches and answers with status 500; in the loops below a thrown
  error is the value \<open>None\<close>.
\<close>

record MonthEntry =
  m_totalSpent :: real
  m_count :: nat

text \<open>\<open>for (let month = 1; month <= 12; month++) monthlyBreakdown[month] = {totalSpent: 0, count: 0}\<close>\<close>

definition initialMonthly :: "nat \<rightharpoonup> MonthEntry" where
  "initialMonthly =
     fold (\<lambda>month mb. mb(month \<mapsto> \<lparr>m_totalSpent = 0, m_count = 0\<rparr>)) [1..<13] Map.empty"

definition addToMonth :: "int \<Rightarrow> Expense \<Rightarrow> (nat \<rightharpoonup> MonthEntry) option \<Rightarrow> (nat \<rightharpoonup> MonthEntry) option" where
  "addToMonth currentYear expense acc =
     (case acc of
        None \<Rightarrow> None
      | Some mb \<Rightarrow>
          if getFullYear (e_date expense) = currentYear then
            (let month = getMonth (e_date expense) + 1
             in case mb month of
                  None \<Rightarrow> None
                | Some entry \<Rightarrow>
                    Some (mb(month \<mapsto> entry\<lparr>m_totalSpent := m_totalSpent entry + e_amount expense,
                                              m_count := m_count entry + 1\<rparr>)))
          else Some mb)"

text \<open>The query of \<open>GET /api/expenses/summary/overview\<close>, with its optional date range.\<close>

record SummaryQuery =
  q_startDate :: "Date option"
  q_endDate :: "Date option"

definition summaryExpenses :: "oid \<Rightarrow> SummaryQuery \<Rightarrow> store \<Rightarrow> Expense list" where
  "summaryExpenses u q s =
     filter (\<lambda>e. e_user e = u \<and> e_isActive e \<and>
                 (case q_startDate q of Some d \<Rightarrow> date_ge (e_date e) d | None \<Rightarrow> True) \<and>
                 (case q_endDate q of Some d \<Rightarrow> date_ge d (e_date e) | None \<Rightarrow> True))
       (expenses s)"

text \<open>The \<open>monthlyBreakdown\<close> of \<open>GET /api/expenses/summary/overview\<close>, or the 500 response.\<close>

definition GET_expenses_summary_monthly :: "Date \<Rightarrow> oid \<Rightarrow> SummaryQuery \<Rightarrow> store \<Rightarrow> response + (nat \<rightharpoonup> MonthEntry)" where
  "GET_expenses_summary_monthly now u q s =
     (case fold (addToMonth (getFullYear now)) (summaryExpenses u q s) (Some initialMonthly) of
        None \<Rightarrow> Inl (respond 500 False ServerErrorExpenseSummary)
      | Some mb \<Rightarrow> Inr mb)"

record AnalyticsMonthEntry =
  am_budget :: real
  am_actual :: real
  am_variance :: real
  am_lastYear :: real

definition initialAnalyticsMonthly :: "nat \<rightharpoonup> AnalyticsMonthEntry" where
  "initialAnalyticsMonthly =
     fold (\<lambda>month mb. mb(month \<mapsto> \<lparr>am_budget = 0, am_actual = 0, am_variance = 0, am_lastYear = 0\<rparr>))
       [1..<13] Map.empty"

definition addAnalyticsToMonth :: "ExpenseAnalytics \<Rightarrow> (nat \<rightharpoonup> AnalyticsMonthEntry) option
    \<Rightarrow> (nat \<rightharpoonup> AnalyticsMonthEntry) option" where
  "addAnalyticsToMonth item acc =
     (case acc of
        None \<Rightarrow> None
      | Some mb \<Rightarrow>
          (case mb (a_month item) of
             None \<Rightarrow> None
           | Some entry \<Rightarrow>
               Some (mb(a_month item \<mapsto> entry\<lparr>am_budget := am_budget entry + a_budget item,
                                                 am_actual := am_actual entry + a_actual item,
                                                 am_lastYear := am_lastYear entry + a_lastYear item\<rparr>))))"

text \<open>\<open>Object.keys(monthlyBreakdown).forEach\<close>: the variance of each month.\<close>

definition setVariances :: "(nat \<rightharpoonup> AnalyticsMonthEntry) \<Rightarrow> (nat \<rightharpoonup> AnalyticsMonthEntry)" where
  "setVariances mb =
     (\<lambda>month. map_option (\<lambda>item. item\<lparr>am_variance := am_budget item - am_actual item\<rparr>) (mb month))"

text \<open>
  \<open>ExpenseAnalytics.find({user: u, year: currentYear})\<close>, where \<open>currentYear\<close> is the
  \<open>year\<close> of the query when given and the year of \<open>now\<close> otherwise.
\<close>

definition summaryAnalytics :: "Date \<Rightarrow> oid \<Rightarrow> int option \<Rightarrow> ExpenseAnalytics list \<Rightarrow> ExpenseAnalytics list" where
  "summaryAnalytics now u year docs =
     (let currentYear = (case year of Some y \<Rightarrow> y | None \<Rightarrow> getFullYear now)
      in filter (\<lambda>a. a_user a = u \<and> a_year a = currentYear) docs)"

text \<open>The \<open>monthlyBreakdown\<close> of \<open>GET /api/analytics/summary\<close>, or the 500 response.\<close>

definition GET_analytics_summary_monthly :: "Date \<Rightarrow> oid \<Rightarrow> int option \<Rightarrow> ExpenseAnalytics list
    \<Rightarrow> response + (nat \<rightharpoonup> AnalyticsMonthEntry)" where
  "GET_analytics_summary_monthly now u year docs =
     (case fold addAnalyticsToMonth (summaryAnalytics now u year docs) (Some initialAnalyticsMonthly) of
        None \<Rightarrow> Inl (respond 500 False ServerErrorAnalyticsSummary)
      | Some mb \<Rightarrow> Inr (setVariances mb))"

section \<open>Sample data\<close>

text \<open>
  A date, a user (number 7) with requests to create budgets and expenses, and the
  stores that the routes build from them, starting from empty collections.
\<close>

definition day0 :: Date where
  "day0 = \<lparr>fullYear = 2025, monthIndex = 4, dayOfMonth = 17\<rparr>"

definition emptyStore :: store where
  "emptyStore = \<lparr>budgets = [], expenses = []\<rparr>"

definition budgetBody0 :: "real \<Rightarrow> BudgetBody" where
  "budgetBody0 a = \<lparr>bb_title = ''Groceries'', bb_amount = a, bb_category = ''Food''\<rparr>"

definition body0 :: "real \<Rightarrow> oid option \<Rightarrow> ExpenseBody" where
  "body0 a r = \<lparr>p_name = ''Lunch'', p_amount = a, p_category = ''Food'', p_date = None, p_budget = r\<rparr>"

text \<open>A body whose name is one space: the route accepts it, the schema does not.\<close>

definition blankBody :: ExpenseBody where
  "blankBody = \<lparr>p_name = '' '', p_amount = 100, p_category = ''Food'', p_date = None, p_budget = None\<rparr>"

text \<open>The body \<open>{budget: b}\<close> of an update that only reassigns the expense.\<close>

definition moveTo :: "oid \<Rightarrow> ExpenseUpdate" where
  "moveTo b = \<lparr>u_name = None, u_amount = None, u_category = None, u_date = None, u_budget = Some b\<rparr>"

text \<open>Scenario A: one budget of 1000 and one expense of 150 on it.\<close>

definition scenarioA :: store where
  "scenarioA = snd (POST_expenses day0 7 (body0 150 (Some 0))
                 (snd (POST_budgets 7 (budgetBody0 1000) emptyStore)))"

text \<open>Scenario B: budgets of 500 and 300, one expense of 100 on the first.\<close>

definition scenarioB :: store where
  "scenarioB = snd (POST_expenses day0 7 (body0 100 (Some 0))
                 (snd (POST_budgets 7 (budgetBody0 300)
                   (snd (POST_budgets 7 (budgetBody0 500) emptyStore)))))"


text \<open>A savings expense created with 100 a month, then updated to 200 a month.\<close>

definition savingsScenario :: "response \<times> SavingsExpense list" where
  "savingsScenario =
     PUT_savings_expenses 7 1 \<lparr>su_category = None, su_perMonth = Some 200\<rparr>
       (snd (POST_savings_expenses 7 \<lparr>sb_category = ''Rent'', sb_perMonth = 100\<rparr> []))"

text \<open>A budget of amount 0 with an expense of 50 on it.\<close>

definition scenarioZero :: store where
  "scenarioZero = snd (POST_expenses day0 7 (body0 50 (Some 0))
                    (snd (POST_budgets 7 (budgetBody0 0) emptyStore)))"

text \<open>A budget of amount 100 with an expense of 90 on it.\<close>

definition scenarioNinety :: store where
  "scenarioNinety = snd (POST_expenses day0 7 (body0 90 (Some 0))
                      (snd (POST_budgets 7 (budgetBody0 100) emptyStore)))"

definition analytics0 :: "ExpenseAnalytics list" where
  "analytics0 = [\<lparr>a_category = ''Food'', a_actual = 50, a_budget = 80, a_lastYear = 40,
                  a_month = 3, a_year = 2025, a_user = 7\<rparr>]"

text \<open>An analytics document with a budget of 0 and an actual of 50.\<close>

definition analyticsZero :: ExpenseAnalytics where
  "analyticsZero = \<lparr>a_category = ''Food'', a_actual = 50, a_budget = 0, a_lastYear = 0,
                     a_month = 3, a_year = 2025, a_user = 7\<rparr>"

definition noRange :: SummaryQuery where
  "noRange = \<lparr>q_startDate = None, q_endDate = None\<rparr>"

section \<open>Evaluating the sample data\<close>

lemma scenarioA_eq:
  "scenarioA =
     \<lparr>budgets = [\<lparr>b_title = ''Groceries'', b_amount = 1000, b_spent = 150, b_remaining = 1000,
                  b_category = ''Food'', b_user = 7, b_isActive = True\<rparr>],
      expenses = [\<lparr>e_name = ''Lunch'', e_amount = 150, e_date = day0, e_category = ''Food'',
                   e_user = 7, e_budget = Some 0, e_isActive = True\<rparr>]\<rparr>"
  by (simp add: scenarioA_def POST_expenses_def POST_budgets_def validExpenseBody_def
      validBudgetBody_def categories_def body0_def budgetBody0_def emptyStore_def Budget_create_def
      newBudget_def budget_pre_save_def Budget_findOne_def Expense_create_def newExpense_def
      Budget_inc_spent_def Let_def Expense_validate_def Budget_validate_def trim_def
      isWhiteSpace_def)

lemma scenarioB_eq:
  "scenarioB =
     \<lparr>budgets = [\<lparr>b_title = ''Groceries'', b_amount = 500, b_spent = 100, b_remaining = 500,
                  b_category = ''Food'', b_user = 7, b_isActive = True\<rparr>,
                 \<lparr>b_title = ''Groceries'', b_amount = 300, b_spent = 0, b_remaining = 300,
                  b_category = ''Food'', b_user = 7, b_isActive = True\<rparr>],
      expenses = [\<lparr>e_name = ''Lunch'', e_amount = 100, e_date = day0, e_category = ''Food'',
                   e_user = 7, e_budget = Some 0, e_isActive = True\<rparr>]\<rparr>"
  by (simp add: scenarioB_def POST_expenses_def POST_budgets_def validExpenseBody_def
      validBudgetBody_def categories_def body0_def budgetBody0_def emptyStore_def Budget_create_def
      newBudget_def budget_pre_save_def Budget_findOne_def Expense_create_def newExpense_def
      Budget_inc_spent_def Let_def Expense_validate_def Budget_validate_def trim_def
      isWhiteSpace_def)

lemma moved_eq:
  "PUT_expenses 7 0 (moveTo 1) scenarioB =
    (respond 200 True ExpenseUpdated,
     scenarioB\<lparr>expenses := [\<lparr>e_name = ''Lunch'', e_amount = 100, e_date = day0,
       e_category = ''Food'', e_user = 7, e_budget = Some 1, e_isActive = True\<rparr>]\<rparr>)"
  by (simp add: scenarioB_eq PUT_expenses_def validExpenseUpdate_def moveTo_def Expense_findOne_def
      Expense_findByIdAndUpdate_def Expense_validateUpdate_def applyUpdate_def)

lemma scenarioZero_eq:
  "scenarioZero =
     \<lparr>budgets = [\<lparr>b_title = ''Groceries'', b_amount = 0, b_spent = 50, b_remaining = 0,
                  b_category = ''Food'', b_user = 7, b_isActive = True\<rparr>],
      expenses = [\<lparr>e_name = ''Lunch'', e_amount = 50, e_date = day0, e_category = ''Food'',
                   e_user = 7, e_budget = Some 0, e_isActive = True\<rparr>]\<rparr>"
  by (simp add: scenarioZero_def POST_expenses_def POST_budgets_def validExpenseBody_def
      validBudgetBody_def categories_def body0_def budgetBody0_def emptyStore_def Budget_create_def
      newBudget_def budget_pre_save_def Budget_findOne_def Expense_create_def newExpense_def
      Budget_inc_spent_def Let_def Expense_validate_def Budget_validate_def trim_def
      isWhiteSpace_def)

lemma scenarioNinety_eq:
  "scenarioNinety =
     \<lparr>budgets = [\<lparr>b_title = ''Groceries'', b_amount = 100, b_spent = 90, b_remaining = 100,
                  b_category = ''Food'', b_user = 7, b_isActive = True\<rparr>],
      expenses = [\<lparr>e_name = ''Lunch'', e_amount = 90, e_date = day0, e_category = ''Food'',
                   e_user = 7, e_budget = Some 0, e_isActive = True\<rparr>]\<rparr>"
  by (simp add: scenarioNinety_def POST_expenses_def POST_budgets_def validExpenseBody_def
      validBudgetBody_def categories_def body0_def budgetBody0_def emptyStore_def Budget_create_def
      newBudget_def budget_pre_save_def Budget_findOne_def Expense_create_def newExpense_def
      Budget_inc_spent_def Let_def Expense_validate_def Budget_validate_def trim_def
      isWhiteSpace_def)

lemma scenarioNinety_insights:
  "GET_analytics_insights day0 7 [] scenarioNinety =
    [\<lparr>i_type = Info, i_category = ''Food'', i_message = AccountsFor ''Food'' (Num 100)\<rparr>,
     \<lparr>i_type = Warning, i_category = ''Overall'', i_message = TotalUsed 90\<rparr>]"
  by (simp add: scenarioNinety_eq GET_analytics_insights_def Budget_find_def enumerate_eq_zip
     newDate_def getFullYear_def getMonth_def day0_def date_ge_def date_lt_def categorySpending_def
     spendingInsight_def utilizationInsight_def budgetUtilization_def)

lemma scenarioNinety_notifications:
  "collectNotifications day0 7 scenarioNinety =
    [\<lparr>n_type = Warning, n_title = ''Budget Alert'',
      n_message = BudgetUsedReduce ''Groceries'' (Num 90), n_category = ''Food'',
      n_data = BudgetData 0 (Num 90)\<rparr>]"
  by (simp add: scenarioNinety_eq collectNotifications_def
     Budget_find_def enumerate_eq_zip budgetNotification_def utilization_def
     newDate_def getFullYear_def getMonth_def day0_def date_ge_def categoryExpenses_def
     highExpenseNotification_def round_half_up_def)

section \<open>The budget aggregate \<open>spent\<close>\<close>

text \<open>
  C1 (conservation of \<open>spent\<close>), evaluated on scenario B: an expense of 100 on budget 0 is
  moved to budget 1 by \<open>PUT /api/expenses/0\<close> with body \<open>{budget: 1}\<close>. The request
  succeeds, and afterwards budget 0 still has \<open>spent = 100\<close> although no active expense
  references it, and budget 1 has \<open>spent = 0\<close> although its active expenses sum to 100.
\<close>

theorem spent_not_conserved_after_reassignment:
  "status (fst (PUT_expenses 7 0 (moveTo 1) scenarioB)) = 200 \<and>
   b_spent (budgets (snd (PUT_expenses 7 0 (moveTo 1) scenarioB)) ! 0) = 100 \<and>
   activeTotal (snd (PUT_expenses 7 0 (moveTo 1) scenarioB)) 0 = 0 \<and>
   b_spent (budgets (snd (PUT_expenses 7 0 (moveTo 1) scenarioB)) ! 1) = 0 \<and>
   activeTotal (snd (PUT_expenses 7 0 (moveTo 1) scenarioB)) 1 = 100"
  unfolding moved_eq by (simp add: activeTotal_def respond_def scenarioB_eq)

section \<open>The stored \<open>remaining\<close> and reassignment\<close>

text \<open>
  C2 (\<open>remaining = amount - spent\<close>), evaluated on scenario A: a budget of amount 1000 is
  created and an expense of 150 is created against it. The active budget then has
  \<open>spent = 150\<close> and the stored \<open>remaining\<close> is still 1000, not 850.
\<close>

theorem remaining_stale_after_create:
  "b_amount (budgets scenarioA ! 0) = 1000 \<and> b_isActive (budgets scenarioA ! 0) \<and>
   b_spent (budgets scenarioA ! 0) = 150 \<and> b_remaining (budgets scenarioA ! 0) = 1000 \<and>
   b_remaining (budgets scenarioA ! 0)
     \<noteq> b_amount (budgets scenarioA ! 0) - b_spent (budgets scenarioA ! 0)"
  by (simp add: scenarioA_eq)

text \<open>An update whose body has no amount changes no budget at all, whatever budget it names.\<close>

lemma PUT_expenses_without_amount:
  "u_amount body = None \<Longrightarrow> budgets (snd (PUT_expenses u i body s)) = budgets s"
  by (auto simp: PUT_expenses_def Expense_findByIdAndUpdate_def Let_def
      split: option.splits sum.splits if_splits)

text \<open>
  C3 (reassignment from budget B1 to budget B2), evaluated on scenario B: the expense
  of amount 100 references budget 0 before the update and budget 1 after it, and the
  \<open>spent\<close> of both budgets is what it was before: budget 0 is not decreased by 100 and
  budget 1 is not increased by 100.
\<close>

theorem reassignment_leaves_spent_unchanged:
  "e_budget (expenses scenarioB ! 0) = Some 0 \<and> e_amount (expenses scenarioB ! 0) = 100 \<and>
   e_budget (expenses (snd (PUT_expenses 7 0 (moveTo 1) scenarioB)) ! 0) = Some 1 \<and>
   b_spent (budgets (snd (PUT_expenses 7 0 (moveTo 1) scenarioB)) ! 0)
     = b_spent (budgets scenarioB ! 0) \<and>
   b_spent (budgets (snd (PUT_expenses 7 0 (moveTo 1) scenarioB)) ! 1)
     = b_spent (budgets scenarioB ! 1)"
  unfolding moved_eq by (simp add: scenarioB_eq)

section \<open>Creating an expense\<close>





section \<open>Bulk creation\<close>



text \<open>
  An entry whose name is only white space, placed before the entry with the invalid
  budget, ends the request with status 500 at that entry; nothing is stored.
\<close>

lemma bulk_blank_name_first:
  "POST_expenses_bulk day0 7 [blankBody, body0 30 (Some 5)] scenarioB =
     (respond 500 False ServerErrorCreatingExpenses, scenarioB)"
  by (simp add: POST_expenses_bulk_def validBulkBody_def validExpenseBody_def blankBody_def
      body0_def categories_def Expense_create_def Expense_validate_def newExpense_def trim_def
      isWhiteSpace_def)



section \<open>Deleting an expense twice\<close>

text \<open>
  C10. Soft-deleting the same expense twice: whatever the first \<open>DELETE\<close> did, the
  second one finds no active expense, answers 404 and changes nothing, no budget
  included. So when the expense was active, owned by the user and linked to an
  existing budget, the first request succeeds and after both requests that budget's
  \<open>spent\<close> is lower by the expense's amount, once.
\<close>

theorem delete_twice:
  "status (fst (DELETE_expenses u i (snd (DELETE_expenses u i s)))) = 404 \<and>
   snd (DELETE_expenses u i (snd (DELETE_expenses u i s))) = snd (DELETE_expenses u i s) \<and>
   (Expense_findOne s i u = Some e \<and> e_budget e = Some b \<and> b < length (budgets s) \<longrightarrow>
      status (fst (DELETE_expenses u i s)) = 200 \<and>
      b_spent (budgets (snd (DELETE_expenses u i (snd (DELETE_expenses u i s)))) ! b)
        = b_spent (budgets s ! b) - e_amount e)"
  by (auto simp: DELETE_expenses_def Expense_findOne_def Expense_save_def Budget_inc_spent_def
      respond_def Let_def split: option.splits if_splits)

theorem delete_twice_witness:
  "Expense_findOne scenarioB 0 7 = Some (expenses scenarioB ! 0) \<and>
   e_budget (expenses scenarioB ! 0) = Some 0 \<and> 0 < length (budgets scenarioB) \<and>
   status (fst (DELETE_expenses 7 0 scenarioB)) = 200 \<and>
   status (fst (DELETE_expenses 7 0 (snd (DELETE_expenses 7 0 scenarioB)))) = 404 \<and>
   b_spent (budgets (snd (DELETE_expenses 7 0 (snd (DELETE_expenses 7 0 scenarioB)))) ! 0) = 0"
proof -
  have h: "Expense_findOne scenarioB 0 7 = Some (expenses scenarioB ! 0)"
    "e_budget (expenses scenarioB ! 0) = Some 0" "0 < length (budgets scenarioB)"
    "b_spent (budgets scenarioB ! 0) = 100" "e_amount (expenses scenarioB ! 0) = 100"
    by (simp_all add: Expense_findOne_def scenarioB_eq)
  note t = delete_twice [of 7 0 scenarioB "expenses scenarioB ! 0" 0]
  from t have second: "status (fst (DELETE_expenses 7 0 (snd (DELETE_expenses 7 0 scenarioB)))) = 404"
    by (rule conjunct1)
  from t h have first: "status (fst (DELETE_expenses 7 0 scenarioB)) = 200 \<and>
      b_spent (budgets (snd (DELETE_expenses 7 0 (snd (DELETE_expenses 7 0 scenarioB)))) ! 0)
        = b_spent (budgets scenarioB ! 0) - e_amount (expenses scenarioB ! 0)"
    by blast
  from first second h show ?thesis by simp
qed

section \<open>Savings expenses\<close>

text \<open>
  C8 (\<open>perYear = perMonth * 12\<close> after every write), evaluated: a savings expense is
  created with \<open>perMonth = 100\<close>, which stores \<open>perYear = 1200\<close>, and then updated by
  \<open>PUT /api/savings/expenses/:id\<close> with body \<open>{perMonth: 200}\<close>. The update succeeds and
  the stored document has \<open>perMonth = 200\<close> and \<open>perYear = 1200\<close>, not 2400.
\<close>

theorem perYear_stale_after_update:
  "map se_perYear (snd (POST_savings_expenses 7 \<lparr>sb_category = ''Rent'', sb_perMonth = 100\<rparr> [])) = [1200] \<and>
   status (fst savingsScenario) = 200 \<and>
   map se_perMonth (snd savingsScenario) = [200] \<and>
   map se_perYear (snd savingsScenario) = [1200] \<and>
   map se_perYear (snd savingsScenario) \<noteq> map (\<lambda>e. se_perMonth e * 12) (snd savingsScenario)"
  by (simp add: savingsScenario_def PUT_savings_expenses_def POST_savings_expenses_def
      validSavingsExpenseUpdate_def validSavingsExpenseBody_def savingsCategories_def
      SavingsExpense_create_def savings_pre_save_def nextId_def setSavingsFields_def respond_def)

section \<open>Division by a zero budget amount\<close>

text \<open>
  C5 (percentages are 0 when the divisor is 0), evaluated: a budget of amount 0 with
  \<open>spent = 50\<close> (an expense of 50 created against it). The guarded virtuals are 0: the
  \<open>spendingPercentage\<close> of that budget, and the \<open>variancePercentage\<close> of an analytics
  document with budget 0 and actual 50 (whose variance is -50). But the utilization
  that \<open>GET /api/dashboard/notifications\<close> computes for the budget is \<open>Infinity\<close>, and the
  route answers with a warning that carries \<open>Infinity\<close>. For a budget of amount 0 with
  \<open>spent = 0\<close> the utilization is \<open>NaN\<close>.
\<close>

theorem dashboard_utilization_unguarded:
  "b_amount (budgets scenarioZero ! 0) = 0 \<and>
   spendingPercentage (budgets scenarioZero ! 0) = Num 0 \<and>
   variance analyticsZero = - 50 \<and> variancePercentage analyticsZero = Num 0 \<and>
   utilization (budgets scenarioZero ! 0) = Infinity \<and>
   GET_dashboard_notifications day0 7 scenarioZero =
     [\<lparr>n_type = Warning, n_title = ''Budget Alert'',
       n_message = BudgetUsedReduce ''Groceries'' Infinity, n_category = ''Food'',
       n_data = BudgetData 0 Infinity\<rparr>] \<and>
   utilization (budgets (snd (POST_budgets 7 (budgetBody0 0) emptyStore)) ! 0) = NaN"
  by (simp add: scenarioZero_eq GET_dashboard_notifications_def collectNotifications_def
     Budget_find_def enumerate_eq_zip budgetNotification_def utilization_def js_sort_def
     newDate_def getFullYear_def getMonth_def day0_def date_ge_def categoryExpenses_def
     highExpenseNotification_def spendingPercentage_def POST_budgets_def validBudgetBody_def
     variance_def variancePercentage_def analyticsZero_def
     budgetBody0_def categories_def emptyStore_def Budget_create_def newBudget_def
     Budget_validate_def trim_def isWhiteSpace_def
     budget_pre_save_def)

section \<open>The order of notifications and insights\<close>

lemma js_insert_Warning:
  "n_type x = Warning \<Longrightarrow> js_insert comparePriority x ys = x # ys"
proof (cases ys)
  case Nil
  then show ?thesis by simp
next
  case (Cons y rest)
  assume "n_type x = Warning"
  then have "sortCompare (comparePriority x y) \<le> 0"
    by (cases "n_type y") (simp_all add: comparePriority_def)
  with Cons show ?thesis by simp
qed

lemma js_insert_Info:
  "n_type x = Info \<Longrightarrow> \<forall>w\<in>set ws. n_type w = Warning \<Longrightarrow> \<forall>i\<in>set is. n_type i = Info \<Longrightarrow>
   js_insert comparePriority x (ws @ is) = ws @ x # is"
proof (induction ws)
  case Nil
  then show ?case
    by (cases "is") (simp_all add: comparePriority_def)
next
  case (Cons w ws)
  then have "sortCompare (comparePriority x w) = 1"
    by (simp add: comparePriority_def)
  with Cons show ?case by simp
qed

lemma js_sort_by_priority:
  "\<forall>n\<in>set ns. n_type n = Warning \<or> n_type n = Info \<Longrightarrow>
   js_sort comparePriority ns =
     filter (\<lambda>n. n_type n = Warning) ns @ filter (\<lambda>n. n_type n = Info) ns"
proof (induction ns)
  case Nil
  then show ?case by (simp add: js_sort_def)
next
  case (Cons x ns)
  then have IH: "js_sort comparePriority ns =
      filter (\<lambda>n. n_type n = Warning) ns @ filter (\<lambda>n. n_type n = Info) ns"
    by simp
  have step: "js_sort comparePriority (x # ns) = js_insert comparePriority x (js_sort comparePriority ns)"
    by (simp add: js_sort_def)
  from Cons.prems have "n_type x = Warning \<or> n_type x = Info" by simp
  then show ?case
  proof
    assume "n_type x = Warning"
    then show ?thesis by (simp add: step IH js_insert_Warning)
  next
    assume "n_type x = Info"
    then show ?thesis by (simp add: step IH js_insert_Info)
  qed
qed

lemma collectNotifications_types:
  "\<forall>n\<in>set (collectNotifications now u s). n_type n = Warning \<or> n_type n = Info"
  by (auto simp: collectNotifications_def budgetNotification_def highExpenseNotification_def
      Let_def split: if_splits list.splits prod.splits)

text \<open>
  C6, the claim as stated, fails for the analytics insights: for a user with one budget
  of amount 100, \<open>spent = 90\<close>, and one expense of the current year, the insights are an
  \<open>info\<close> entry (the category takes more than 40% of the spending) followed by the
  \<open>warning\<close> entry on the overall utilization.
\<close>

theorem insights_info_before_warning:
  "\<not> warningsFirst (map i_type (GET_analytics_insights day0 7 [] scenarioNinety))"
  by (simp add: scenarioNinety_insights)

text \<open>
  C6, amended. The output of \<open>GET /api/dashboard/notifications\<close> is the pushed sequence
  sorted by severity: all its \<open>warning\<close> entries in their insertion order, followed by
  all its \<open>info\<close> entries in their insertion order. The output of
  \<open>GET /api/analytics/insights\<close> is not sorted: whenever the overall budget utilization
  exceeds 80, its last entry is the \<open>warning\<close> on the overall utilization, which thus
  follows every \<open>info\<close> entry.
\<close>

theorem notifications_sorted_insights_unsorted:
  "GET_dashboard_notifications now u s =
     filter (\<lambda>n. n_type n = Warning) (collectNotifications now u s) @
     filter (\<lambda>n. n_type n = Info) (collectNotifications now u s) \<and>
   (80 < budgetUtilization (map snd (Budget_find s u)) \<longrightarrow>
      GET_analytics_insights now u docs s \<noteq> [] \<and>
      last (GET_analytics_insights now u docs s) =
        \<lparr>i_type = Warning, i_category = ''Overall'',
         i_message = TotalUsed (budgetUtilization (map snd (Budget_find s u)))\<rparr>)"
  by (simp add: GET_dashboard_notifications_def js_sort_by_priority [OF collectNotifications_types]
      GET_analytics_insights_def utilizationInsight_def Let_def)

theorem notifications_sorted_insights_unsorted_witness:
  "80 < budgetUtilization (map snd (Budget_find scenarioNinety 7)) \<and>
   map n_type (GET_dashboard_notifications day0 7 scenarioNinety) = [Warning] \<and>
   map i_type (GET_analytics_insights day0 7 [] scenarioNinety) = [Info, Warning] \<and>
   i_type (last (GET_analytics_insights day0 7 [] scenarioNinety)) = Warning"
proof -
  have h: "80 < budgetUtilization (map snd (Budget_find scenarioNinety 7))"
    by (simp add: scenarioNinety_eq Budget_find_def enumerate_eq_zip budgetUtilization_def)
  note t = notifications_sorted_insights_unsorted [of day0 7 scenarioNinety "[]"]
  from t have a: "GET_dashboard_notifications day0 7 scenarioNinety =
     filter (\<lambda>n. n_type n = Warning) (collectNotifications day0 7 scenarioNinety) @
     filter (\<lambda>n. n_type n = Info) (collectNotifications day0 7 scenarioNinety)"
    by (rule conjunct1)
  from t h have b: "i_type (last (GET_analytics_insights day0 7 [] scenarioNinety)) = Warning"
    by simp
  from a have c: "map n_type (GET_dashboard_notifications day0 7 scenarioNinety) = [Warning]"
    by (simp add: scenarioNinety_notifications)
  from h b c show ?thesis by (simp add: scenarioNinety_insights)
qed

section \<open>Monthly breakdowns\<close>

lemma fold_upd_const:
  "fold (\<lambda>k m. m(k \<mapsto> z)) ks m0 = (\<lambda>k. if k \<in> set ks then Some z else m0 k)"
  by (induction ks arbitrary: m0) (auto simp: fun_eq_iff)

lemma initialMonthly_eq:
  "initialMonthly = (\<lambda>k. if 1 \<le> k \<and> k \<le> 12 then Some \<lparr>m_totalSpent = 0, m_count = 0\<rparr> else None)"
  unfolding initialMonthly_def fold_upd_const by (auto simp: fun_eq_iff)

lemma initialAnalyticsMonthly_eq:
  "initialAnalyticsMonthly =
     (\<lambda>k. if 1 \<le> k \<and> k \<le> 12
           then Some \<lparr>am_budget = 0, am_actual = 0, am_variance = 0, am_lastYear = 0\<rparr> else None)"
  unfolding initialAnalyticsMonthly_def fold_upd_const by (auto simp: fun_eq_iff)

text \<open>
  The expense loop from any breakdown whose keys are 1 to 12: it does not throw, it keeps
  the keys, and it leaves the entry of every month that no expense of the year falls in.
\<close>

lemma fold_addToMonth:
  "dom mb = {1..12} \<Longrightarrow> \<forall>e\<in>set es. getMonth (e_date e) < 12 \<Longrightarrow>
   \<exists>mb'. fold (addToMonth y) es (Some mb) = Some mb' \<and> dom mb' = {1..12} \<and>
     (\<forall>k. (\<forall>e\<in>set es. getFullYear (e_date e) = y \<longrightarrow> getMonth (e_date e) + 1 \<noteq> k)
          \<longrightarrow> mb' k = mb k)"
proof (induction es arbitrary: mb)
  case Nil
  then show ?case by simp
next
  case (Cons e es)
  show ?case
  proof (cases "getFullYear (e_date e) = y")
    case False
    then have "addToMonth y e (Some mb) = Some mb" by (simp add: addToMonth_def)
    moreover from Cons.prems(2) have "\<forall>e\<in>set es. getMonth (e_date e) < 12" by simp
    ultimately show ?thesis using Cons.IH [OF Cons.prems(1)] False by auto
  next
    case True
    let ?m = "getMonth (e_date e) + 1"
    from Cons.prems(2) have "?m \<in> {1..12}" by simp
    with Cons.prems(1) obtain entry where entry: "mb ?m = Some entry" by blast
    let ?mb1 = "mb(?m \<mapsto> entry\<lparr>m_totalSpent := m_totalSpent entry + e_amount e,
                                  m_count := m_count entry + 1\<rparr>)"
    have step: "addToMonth y e (Some mb) = Some ?mb1"
      using True entry by (simp add: addToMonth_def Let_def)
    have d: "dom ?mb1 = {1..12}"
      using Cons.prems(1) \<open>?m \<in> {1..12}\<close> by auto
    from Cons.prems(2) have r: "\<forall>e\<in>set es. getMonth (e_date e) < 12" by simp
    from Cons.IH [OF d r] obtain mb' where
      f: "fold (addToMonth y) es (Some ?mb1) = Some mb'" and d': "dom mb' = {1..12}" and
      u: "\<forall>k. (\<forall>e\<in>set es. getFullYear (e_date e) = y \<longrightarrow> getMonth (e_date e) + 1 \<noteq> k)
              \<longrightarrow> mb' k = ?mb1 k" by blast
    have "\<forall>k. (\<forall>e'\<in>set (e # es). getFullYear (e_date e') = y \<longrightarrow> getMonth (e_date e') + 1 \<noteq> k)
              \<longrightarrow> mb' k = mb k"
      using u True by auto
    with f d' step show ?thesis by simp
  qed
qed

lemma fold_addAnalyticsToMonth:
  "dom mb = {1..12} \<Longrightarrow> \<forall>a\<in>set items. 1 \<le> a_month a \<and> a_month a \<le> 12 \<Longrightarrow>
   \<exists>mb'. fold addAnalyticsToMonth items (Some mb) = Some mb' \<and> dom mb' = {1..12} \<and>
     (\<forall>k. (\<forall>a\<in>set items. a_month a \<noteq> k) \<longrightarrow> mb' k = mb k)"
proof (induction items arbitrary: mb)
  case Nil
  then show ?case by simp
next
  case (Cons a items)
  from Cons.prems(2) have "a_month a \<in> {1..12}" by simp
  with Cons.prems(1) obtain entry where entry: "mb (a_month a) = Some entry" by blast
  let ?mb1 = "mb(a_month a \<mapsto> entry\<lparr>am_budget := am_budget entry + a_budget a,
                                       am_actual := am_actual entry + a_actual a,
                                       am_lastYear := am_lastYear entry + a_lastYear a\<rparr>)"
  have step: "addAnalyticsToMonth a (Some mb) = Some ?mb1"
    using entry by (simp add: addAnalyticsToMonth_def)
  have d: "dom ?mb1 = {1..12}"
    using Cons.prems(1) \<open>a_month a \<in> {1..12}\<close> by auto
  from Cons.prems(2) have r: "\<forall>a\<in>set items. 1 \<le> a_month a \<and> a_month a \<le> 12" by simp
  from Cons.IH [OF d r] obtain mb' where
    f: "fold addAnalyticsToMonth items (Some ?mb1) = Some mb'" and d': "dom mb' = {1..12}" and
    u: "\<forall>k. (\<forall>a\<in>set items. a_month a \<noteq> k) \<longrightarrow> mb' k = ?mb1 k" by blast
  have "\<forall>k. (\<forall>a'\<in>set (a # items). a_month a' \<noteq> k) \<longrightarrow> mb' k = mb k"
    using u by auto
  with f d' step show ?case by simp
qed

lemma dom_setVariances: "dom (setVariances mb) = dom mb"
  by (auto simp: setVariances_def dom_def)

text \<open>
  C7. Whatever the collections hold (the month of a \<open>Date\<close> being 0 to 11 and the month
  of an analytics document 1 to 12, as the schema and the request validation ensure),
  both routes answer with a monthly breakdown whose keys are exactly 1 to 12, and the
  entry of every month for which the query found no document is all zero: total 0
  and count 0 for expenses; budget, actual, variance and last year 0 for analytics.
\<close>

theorem monthly_breakdown_dense:
  assumes "\<forall>e\<in>set (expenses s). getMonth (e_date e) < 12"
    and "\<forall>a\<in>set docs. 1 \<le> a_month a \<and> a_month a \<le> 12"
  shows
    "(\<exists>mb. GET_expenses_summary_monthly now u q s = Inr mb \<and> dom mb = {1..12} \<and>
        (\<forall>k\<in>{1..12}.
           (\<forall>e\<in>set (summaryExpenses u q s).
              getFullYear (e_date e) = getFullYear now \<longrightarrow> getMonth (e_date e) + 1 \<noteq> k)
           \<longrightarrow> mb k = Some \<lparr>m_totalSpent = 0, m_count = 0\<rparr>)) \<and>
     (\<exists>mb. GET_analytics_summary_monthly now u year docs = Inr mb \<and> dom mb = {1..12} \<and>
        (\<forall>k\<in>{1..12}.
           (\<forall>a\<in>set (summaryAnalytics now u year docs). a_month a \<noteq> k)
           \<longrightarrow> mb k = Some \<lparr>am_budget = 0, am_actual = 0, am_variance = 0, am_lastYear = 0\<rparr>))"
proof
  have d0: "dom initialMonthly = {1..12}"
    by (auto simp: initialMonthly_eq dom_def)
  have m: "\<forall>e\<in>set (summaryExpenses u q s). getMonth (e_date e) < 12"
    using assms(1) by (simp add: summaryExpenses_def)
  from fold_addToMonth [OF d0 m, of "getFullYear now"] obtain mb where
    f: "fold (addToMonth (getFullYear now)) (summaryExpenses u q s) (Some initialMonthly) = Some mb"
    and d: "dom mb = {1..12}"
    and z: "\<forall>k. (\<forall>e\<in>set (summaryExpenses u q s).
               getFullYear (e_date e) = getFullYear now \<longrightarrow> getMonth (e_date e) + 1 \<noteq> k)
             \<longrightarrow> mb k = initialMonthly k" by blast
  have "GET_expenses_summary_monthly now u q s = Inr mb"
    by (simp add: GET_expenses_summary_monthly_def f)
  moreover have "\<forall>k\<in>{1..12}.
           (\<forall>e\<in>set (summaryExpenses u q s).
              getFullYear (e_date e) = getFullYear now \<longrightarrow> getMonth (e_date e) + 1 \<noteq> k)
           \<longrightarrow> mb k = Some \<lparr>m_totalSpent = 0, m_count = 0\<rparr>"
    using z by (simp add: initialMonthly_eq)
  ultimately show "\<exists>mb. GET_expenses_summary_monthly now u q s = Inr mb \<and> dom mb = {1..12} \<and>
        (\<forall>k\<in>{1..12}.
           (\<forall>e\<in>set (summaryExpenses u q s).
              getFullYear (e_date e) = getFullYear now \<longrightarrow> getMonth (e_date e) + 1 \<noteq> k)
           \<longrightarrow> mb k = Some \<lparr>m_totalSpent = 0, m_count = 0\<rparr>)"
    using d by blast
next
  have d0: "dom initialAnalyticsMonthly = {1..12}"
    by (auto simp: initialAnalyticsMonthly_eq dom_def)
  have m: "\<forall>a\<in>set (summaryAnalytics now u year docs). 1 \<le> a_month a \<and> a_month a \<le> 12"
    using assms(2) by (simp add: summaryAnalytics_def Let_def)
  from fold_addAnalyticsToMonth [OF d0 m] obtain mb where
    f: "fold addAnalyticsToMonth (summaryAnalytics now u year docs) (Some initialAnalyticsMonthly) = Some mb"
    and d: "dom mb = {1..12}"
    and z: "\<forall>k. (\<forall>a\<in>set (summaryAnalytics now u year docs). a_month a \<noteq> k)
             \<longrightarrow> mb k = initialAnalyticsMonthly k" by blast
  have r: "GET_analytics_summary_monthly now u year docs = Inr (setVariances mb)"
    by (simp add: GET_analytics_summary_monthly_def f)
  have "\<forall>k\<in>{1..12}.
           (\<forall>a\<in>set (summaryAnalytics now u year docs). a_month a \<noteq> k)
           \<longrightarrow> setVariances mb k
               = Some \<lparr>am_budget = 0, am_actual = 0, am_variance = 0, am_lastYear = 0\<rparr>"
    using z by (simp add: initialAnalyticsMonthly_eq setVariances_def)
  with r d show "\<exists>mb. GET_analytics_summary_monthly now u year docs = Inr mb \<and> dom mb = {1..12} \<and>
        (\<forall>k\<in>{1..12}.
           (\<forall>a\<in>set (summaryAnalytics now u year docs). a_month a \<noteq> k)
           \<longrightarrow> mb k = Some \<lparr>am_budget = 0, am_actual = 0, am_variance = 0, am_lastYear = 0\<rparr>)"
    using dom_setVariances [of mb] by blast
qed

theorem monthly_breakdown_dense_witness:
  "list_all (\<lambda>e. getMonth (e_date e) < 12) (expenses scenarioB) \<and>
   list_all (\<lambda>a. 1 \<le> a_month a \<and> a_month a \<le> 12) analytics0 \<and>
   (\<exists>mb. GET_expenses_summary_monthly day0 7 noRange scenarioB = Inr mb \<and> dom mb = {1..12} \<and>
      mb 1 = Some \<lparr>m_totalSpent = 0, m_count = 0\<rparr>) \<and>
   (\<exists>mb. GET_analytics_summary_monthly day0 7 None analytics0 = Inr mb \<and> dom mb = {1..12} \<and>
      mb 1 = Some \<lparr>am_budget = 0, am_actual = 0, am_variance = 0, am_lastYear = 0\<rparr>)"
proof -
  have h1: "\<forall>e\<in>set (expenses scenarioB). getMonth (e_date e) < 12"
    by (simp add: scenarioB_eq getMonth_def day0_def)
  have h2: "\<forall>a\<in>set analytics0. 1 \<le> a_month a \<and> a_month a \<le> 12"
    by (simp add: analytics0_def)
  have e1: "\<forall>e\<in>set (summaryExpenses 7 noRange scenarioB).
              getFullYear (e_date e) = getFullYear day0 \<longrightarrow> getMonth (e_date e) + 1 \<noteq> 1"
    by (simp add: summaryExpenses_def scenarioB_eq getMonth_def day0_def)
  have a1: "\<forall>a\<in>set (summaryAnalytics day0 7 None analytics0). a_month a \<noteq> 1"
    by (simp add: summaryAnalytics_def analytics0_def Let_def)
  note t = monthly_breakdown_dense [OF h1 h2, of day0 7 noRange None]
  from t e1 have p1: "\<exists>mb. GET_expenses_summary_monthly day0 7 noRange scenarioB = Inr mb \<and>
      dom mb = {1..12} \<and> mb 1 = Some \<lparr>m_totalSpent = 0, m_count = 0\<rparr>"
    by fastforce
  from t a1 have p2: "\<exists>mb. GET_analytics_summary_monthly day0 7 None analytics0 = Inr mb \<and>
      dom mb = {1..12} \<and>
      mb 1 = Some \<lparr>am_budget = 0, am_actual = 0, am_variance = 0, am_lastYear = 0\<rparr>"
    by fastforce
  from h1 h2 p1 p2 show ?thesis by (simp add: list_all_iff)
qed

end
